theory Spec2Isabelle
  imports Main "HOL-Library.Sublist"
begin

section \<open>Values exchanged with the outside world\<close>

text \<open>
  A Go \<^verbatim>\<open>string\<close> and a \<^verbatim>\<open>[]byte\<close> are sequences of bytes; both are modelled by
  \<^typ>\<open>string\<close>, whose characters are bytes.

  A decoded JSON document is what \<^verbatim>\<open>encoding/json\<close> stores into an
  \<^verbatim>\<open>interface{}\<close>: nil, a bool, a number, a string, a slice or a
  \<^verbatim>\<open>map[string]interface{}\<close>. An object is given by the list of its members in
  the order of the document. Numbers are never inspected by the code, so a
  number keeps its literal.
\<close>

datatype json =
    JNull
  | JBool bool
  | JNumber string
  | JString string
  | JArray "json list"
  | JObject "(string \<times> json) list"

text \<open>
  The lookup \<^verbatim>\<open>m[key]\<close> in the map decoded from an object: when a key comes
  twice in the document, the decoder keeps the later member.
\<close>

definition member :: "(string \<times> json) list \<Rightarrow> string \<Rightarrow> json option" where
  "member m key = map_of (rev m) key"

text \<open>The type assertion \<^verbatim>\<open>m[key].(string)\<close> on a decoded map.\<close>

fun asString :: "json option \<Rightarrow> string option" where
  "asString (Some (JString s)) = Some s"
| "asString _ = None"

text \<open>The type assertion \<^verbatim>\<open>m[key].(map[string]interface{})\<close>.\<close>

fun asMap :: "json option \<Rightarrow> (string \<times> json) list option" where
  "asMap (Some (JObject m)) = Some m"
| "asMap _ = None"

record request =
  httpMethod :: string
  url :: string
  headers :: "(string \<times> string) list"
  payload :: "string option"

text \<open>
  What \<^verbatim>\<open>client.Do\<close> followed by \<^verbatim>\<open>io.ReadAll(resp.Body)\<close> can give: no
  response at all, or a response with a status code whose body can be read
  (\<open>Some\<close>) or not (\<open>None\<close>).
\<close>

datatype http_outcome =
    SendFailed
  | Reply nat "string option"

text \<open>
  Everything the converter does to the outside world, in the order it does it.
  The state of a run is the trace of these events.
\<close>

datatype event =
    Sent request
  | Slept nat
  | ReadFile string
  | MkdirAll string
  | CreateFile string
  | WriteFile string string
  | NewUUID

type_synonym trace = "event list"

fun isSent :: "event \<Rightarrow> bool" where
  "isSent (Sent r) = True"
| "isSent _ = False"

fun isFileOp :: "event \<Rightarrow> bool" where
  "isFileOp (ReadFile p) = True"
| "isFileOp (MkdirAll p) = True"
| "isFileOp (CreateFile p) = True"
| "isFileOp (WriteFile p d) = True"
| "isFileOp _ = False"

fun isNewUUID :: "event \<Rightarrow> bool" where
  "isNewUUID NewUUID = True"
| "isNewUUID _ = False"

definition sent :: "trace \<Rightarrow> request list" where
  "sent t = concat (map (\<lambda>e. case e of Sent r \<Rightarrow> [r] | _ \<Rightarrow> []) t)"

definition nsent :: "trace \<Rightarrow> nat" where
  "nsent t = length (filter isSent t)"

definition nfileops :: "trace \<Rightarrow> nat" where
  "nfileops t = length (filter isFileOp t)"

definition nuuids :: "trace \<Rightarrow> nat" where
  "nuuids t = length (filter isNewUUID t)"

text \<open>
  The outside world and the library functions the code calls but does not
  define. The server's answer to a request may depend on the request and on how
  many requests came before it; likewise for the file system and the source of
  UUIDs.
  \<^item> \<open>server k r\<close>: what \<^verbatim>\<open>client.Do\<close> and \<^verbatim>\<open>io.ReadAll\<close> give for the request
    \<open>r\<close> sent after \<open>k\<close> others;
  \<^item> \<open>requestOK m u\<close>: \<^verbatim>\<open>http.NewRequestWithContext\<close> accepts the method and URL;
  \<^item> \<open>decode\<close>: the document \<^verbatim>\<open>json.Unmarshal\<close> reads in a text, if it is JSON;
    \<open>encode\<close> and \<open>encodeIndent\<close>: the text \<^verbatim>\<open>json.Marshal\<close> and
    \<^verbatim>\<open>json.MarshalIndent\<close> write for a document;
  \<^item> \<open>base64\<close>: \<^verbatim>\<open>base64.StdEncoding.EncodeToString\<close>;
  \<^item> \<open>fileData k p\<close>: what \<^verbatim>\<open>os.ReadFile\<close> finds at \<open>p\<close> after \<open>k\<close> operations on
    files, if it can be read; \<open>mkdirOK\<close>, \<open>createOK\<close> and \<open>writeOK\<close>: whether
    \<^verbatim>\<open>os.MkdirAll\<close>, \<^verbatim>\<open>os.Create\<close> and a write to the file succeed there;
  \<^item> \<open>uuidString k\<close>: the \<open>k\<close>-th UUID of \<^verbatim>\<open>uuid.New\<close>, as a string;
  \<^item> \<open>pathJoin\<close> and \<open>pathDir\<close>: \<^verbatim>\<open>filepath.Join\<close> and \<^verbatim>\<open>filepath.Dir\<close>.
\<close>

record world =
  server :: "nat \<Rightarrow> request \<Rightarrow> http_outcome"
  requestOK :: "string \<Rightarrow> string \<Rightarrow> bool"
  decode :: "string \<Rightarrow> json option"
  encode :: "json \<Rightarrow> string"
  encodeIndent :: "json \<Rightarrow> string"
  base64 :: "string \<Rightarrow> string"
  fileData :: "nat \<Rightarrow> string \<Rightarrow> string option"
  mkdirOK :: "nat \<Rightarrow> string \<Rightarrow> bool"
  createOK :: "nat \<Rightarrow> string \<Rightarrow> bool"
  writeOK :: "nat \<Rightarrow> string \<Rightarrow> string \<Rightarrow> bool"
  uuidString :: "nat \<Rightarrow> string"
  pathJoin :: "string \<Rightarrow> string \<Rightarrow> string"
  pathDir :: "string \<Rightarrow> string"

record config =
  RunwayAPIKey :: string
  OutputDir :: string
  VideoLength :: int

record Image =
  Path :: string
  SceneID :: string
  Description :: string

record Video =
  VPath :: string
  ImageID :: string
  Length :: int

section \<open>Errors\<close>

text \<open>
  One constructor for each \<^verbatim>\<open>fmt.Errorf\<close> of \<^verbatim>\<open>converter.go\<close>, named after
  the error it stands for, and one for each error of the operating system that
  the code passes on or logs as it is. The arguments of the format are the
  constructor's arguments; a wrapped cause (\<^verbatim>\<open>%w\<close>) is not kept.
\<close>

datatype error =
    CreateRequestFailed
  | SendRequestFailed
  | ReadResponseFailed
  | UnexpectedStatus nat string
  | ParseResponseFailed
  | APIError string
  | MissingJobIdentifier "(string \<times> json) list"
  | MissingResultLocation "(string \<times> json) list"
  | GenerationFailed string
  | PollTimeout
  | DownloadStatus nat
  | DownloadReadFailed
  | ReadImageFailed
  | MkdirFailed
  | CreateFailed
  | WriteFailed
  | NoArtifactsProduced

text \<open>
  The format string of the error, as written in the source (empty for an error
  of the operating system, which has no format in the source).
\<close>

fun errorFormat :: "error \<Rightarrow> string" where
  "errorFormat CreateRequestFailed = ''failed to create request: %w''"
| "errorFormat SendRequestFailed = ''failed to send request: %w''"
| "errorFormat ReadResponseFailed = ''failed to read response: %w''"
| "errorFormat (UnexpectedStatus code body) = ''unexpected status code: %d, body: %s''"
| "errorFormat ParseResponseFailed = ''failed to parse response: %w''"
| "errorFormat (APIError msg) = ''API error: %s''"
| "errorFormat (MissingJobIdentifier m) = ''no job ID in response: %v''"
| "errorFormat (MissingResultLocation m) = ''no video URL in response: %v''"
| "errorFormat (GenerationFailed msg) = ''video generation failed: %s''"
| "errorFormat PollTimeout = ''timed out waiting for video generation''"
| "errorFormat (DownloadStatus code) = ''unexpected status code: %d''"
| "errorFormat DownloadReadFailed = ''''"
| "errorFormat ReadImageFailed = ''''"
| "errorFormat MkdirFailed = ''''"
| "errorFormat CreateFailed = ''''"
| "errorFormat WriteFailed = ''''"
| "errorFormat NoArtifactsProduced = ''no videos created''"

section \<open>Primitive effects\<close>

definition clientDo :: "world \<Rightarrow> request \<Rightarrow> trace \<Rightarrow> http_outcome \<times> trace" where
  "clientDo w r t = (server w (nsent t) r, t @ [Sent r])"

definition sleep :: "nat \<Rightarrow> trace \<Rightarrow> trace" where
  "sleep ms t = t @ [Slept ms]"

definition osReadFile :: "world \<Rightarrow> string \<Rightarrow> trace \<Rightarrow> string option \<times> trace" where
  "osReadFile w p t = (fileData w (nfileops t) p, t @ [ReadFile p])"

definition osMkdirAll :: "world \<Rightarrow> string \<Rightarrow> trace \<Rightarrow> bool \<times> trace" where
  "osMkdirAll w p t = (mkdirOK w (nfileops t) p, t @ [MkdirAll p])"

definition osCreate :: "world \<Rightarrow> string \<Rightarrow> trace \<Rightarrow> bool \<times> trace" where
  "osCreate w p t = (createOK w (nfileops t) p, t @ [CreateFile p])"

definition osWriteFile :: "world \<Rightarrow> string \<Rightarrow> string \<Rightarrow> trace \<Rightarrow> bool \<times> trace" where
  "osWriteFile w p d t = (writeOK w (nfileops t) p d, t @ [WriteFile p d])"

definition uuidNew :: "world \<Rightarrow> trace \<Rightarrow> string \<times> trace" where
  "uuidNew w t = (uuidString w (nuuids t), t @ [NewUUID])"

text \<open>
  \<^verbatim>\<open>json.Unmarshal(body, &responseData)\<close> into a \<^verbatim>\<open>map[string]interface{}\<close>:
  an object gives its members, \<^verbatim>\<open>null\<close> leaves the map nil (every lookup
  misses), anything else is an error.
\<close>

definition unmarshalMap :: "world \<Rightarrow> string \<Rightarrow> (string \<times> json) list option" where
  "unmarshalMap w body =
     (case decode w body of
        None \<Rightarrow> None
      | Some (JObject m) \<Rightarrow> Some m
      | Some JNull \<Rightarrow> Some []
      | Some _ \<Rightarrow> None)"

section \<open>The job poller\<close>

definition maxAttempts :: nat where
  "maxAttempts = 60"

text \<open>The poll interval, \<^verbatim>\<open>5 * time.Second\<close>, in milliseconds.\<close>

definition pollInterval :: nat where
  "pollInterval = 5000"

definition statusURL :: "string \<Rightarrow> string" where
  "statusURL jobID = ''https://api.dev.runwayml.com/v1/image_to_video/'' @ jobID"

definition alternativeURL :: "string \<Rightarrow> string" where
  "alternativeURL jobID = ''https://api.dev.runwayml.com/v1/jobs/'' @ jobID"

definition statusRequest :: "config \<Rightarrow> string \<Rightarrow> request" where
  "statusRequest c apiURL =
     \<lparr>httpMethod = ''GET'', url = apiURL,
      headers = [(''Authorization'', ''Bearer '' @ RunwayAPIKey c),
                 (''X-Runway-Version'', ''2024-11-06'')],
      payload = None\<rparr>"

definition downloadRequest :: "string \<Rightarrow> request" where
  "downloadRequest u = \<lparr>httpMethod = ''GET'', url = u, headers = [], payload = None\<rparr>"

text \<open>\<^verbatim>\<open>downloadVideo\<close>: one plain GET; the status is checked before the body is read.\<close>

definition downloadVideo :: "world \<Rightarrow> string \<Rightarrow> trace \<Rightarrow> (error + string) \<times> trace" where
  "downloadVideo w u t =
     (if \<not> requestOK w ''GET'' u then (Inl CreateRequestFailed, t)
      else case clientDo w (downloadRequest u) t of
        (SendFailed, t') \<Rightarrow> (Inl SendRequestFailed, t')
      | (Reply code body, t') \<Rightarrow>
          if code \<noteq> 200 then (Inl (DownloadStatus code), t')
          else (case body of
                  None \<Rightarrow> (Inl DownloadReadFailed, t')
                | Some bytes \<Rightarrow> (Inr bytes, t')))"

text \<open>
  The lookup of the video URL in a completed response (lines 274 to 284 of
  \<^verbatim>\<open>pollForVideo\<close>): the string at \<^verbatim>\<open>videoUrl\<close>, else the string at
  \<^verbatim>\<open>video\<close> of the map at \<^verbatim>\<open>output\<close>, else an error.
\<close>

definition videoLocation :: "(string \<times> json) list \<Rightarrow> error + string" where
  "videoLocation responseData =
     (case asString (member responseData ''videoUrl'') of
        Some videoURL \<Rightarrow> Inr videoURL
      | None \<Rightarrow>
          (case asMap (member responseData ''output'') of
             Some output \<Rightarrow>
               (case asString (member output ''video'') of
                  Some videoURL \<Rightarrow> Inr videoURL
                | None \<Rightarrow> Inl (MissingResultLocation responseData))
           | None \<Rightarrow> Inl (MissingResultLocation responseData)))"

text \<open>
  One turn of the loop of \<^verbatim>\<open>pollForVideo\<close>. \<open>Retry u\<close> is the loop going on to
  the next attempt (through \<^verbatim>\<open>continue\<close> or the end of the body) with
  \<^verbatim>\<open>apiURL = u\<close>; \<open>Return r\<close> is a \<^verbatim>\<open>return\<close>.
\<close>

datatype step = Retry string | Return "error + string"

definition pollAttempt ::
  "world \<Rightarrow> config \<Rightarrow> string \<Rightarrow> string \<Rightarrow> nat \<Rightarrow> trace \<Rightarrow> step \<times> trace" where
  "pollAttempt w c jobID apiURL attempt t =
     (if \<not> requestOK w ''GET'' apiURL then (Return (Inl CreateRequestFailed), t)
      else case clientDo w (statusRequest c apiURL) t of
        (SendFailed, t') \<Rightarrow> (Return (Inl SendRequestFailed), t')
      | (Reply code None, t') \<Rightarrow> (Return (Inl ReadResponseFailed), t')
      | (Reply code (Some body), t') \<Rightarrow>
          if code \<noteq> 200 then
            (Retry (if code = 404 \<and> attempt = 1 then alternativeURL jobID else apiURL),
             sleep pollInterval t')
          else (case unmarshalMap w body of
            None \<Rightarrow> (Return (Inl ParseResponseFailed), t')
          | Some responseData \<Rightarrow>
              (case asString (member responseData ''status'') of
                 None \<Rightarrow> (Retry apiURL, sleep pollInterval t')
               | Some status \<Rightarrow>
                   if status = ''completed'' then
                     (case videoLocation responseData of
                        Inl e \<Rightarrow> (Return (Inl e), t')
                      | Inr videoURL \<Rightarrow>
                          (case downloadVideo w videoURL t' of
                             (r, t'') \<Rightarrow> (Return r, t'')))
                   else if status = ''failed'' then
                     (Return (Inl (GenerationFailed
                        (case asString (member responseData ''error'') of
                           Some errMsg \<Rightarrow> errMsg
                         | None \<Rightarrow> ''unknown error''))), t')
                   else (Retry apiURL, sleep pollInterval t'))))"

text \<open>
  The loop \<^verbatim>\<open>for attempt := 1; attempt <= maxAttempts; attempt++\<close> and the
  \<^verbatim>\<open>return\<close> after it.
\<close>

function pollLoop ::
  "world \<Rightarrow> config \<Rightarrow> string \<Rightarrow> string \<Rightarrow> nat \<Rightarrow> trace \<Rightarrow> (error + string) \<times> trace" where
  "pollLoop w c jobID apiURL attempt t =
     (if attempt \<le> maxAttempts then
        (case pollAttempt w c jobID apiURL attempt t of
           (Retry u, t') \<Rightarrow> pollLoop w c jobID u (attempt + 1) t'
         | (Return r, t') \<Rightarrow> (r, t'))
      else (Inl PollTimeout, t))"
  by pat_completeness auto
termination
  by (relation "measure (\<lambda>(w, c, jobID, apiURL, attempt, t). Suc maxAttempts - attempt)") auto

declare pollLoop.simps [simp del]

definition pollForVideo :: "world \<Rightarrow> config \<Rightarrow> string \<Rightarrow> trace \<Rightarrow> (error + string) \<times> trace" where
  "pollForVideo w c jobID t = pollLoop w c jobID (statusURL jobID) 1 t"

section \<open>Paths and strings of the Go library\<close>

text \<open>\<^verbatim>\<open>strings.TrimSuffix\<close>.\<close>

definition TrimSuffix :: "string \<Rightarrow> string \<Rightarrow> string" where
  "TrimSuffix s suf = (if suffix suf s then take (length s - length suf) s else s)"

text \<open>
  \<^verbatim>\<open>filepath.Ext\<close>: walking back from the end of the path up to the last
  separator, the text from the first dot met; empty when no dot is met.
  \<open>ExtScan\<close> reads the reversed path and keeps the bytes it has passed.
\<close>

fun ExtScan :: "string \<Rightarrow> string \<Rightarrow> string" where
  "ExtScan [] passed = []"
| "ExtScan (c # cs) passed =
     (if c = CHR ''/'' then []
      else if c = CHR ''.'' then c # passed
      else ExtScan cs (c # passed))"

definition Ext :: "string \<Rightarrow> string" where
  "Ext path = ExtScan (rev path) []"

text \<open>
  \<^verbatim>\<open>filepath.Base\<close>: the last element of the path, after trailing separators
  are dropped; \<^verbatim>\<open>.\<close> for the empty path and \<^verbatim>\<open>/\<close> for a path of separators.
\<close>

definition Base :: "string \<Rightarrow> string" where
  "Base path =
     (if path = [] then ''.''
      else let stripped = dropWhile (\<lambda>c. c = CHR ''/'') (rev path);
               element = rev (takeWhile (\<lambda>c. c \<noteq> CHR ''/'') stripped)
           in if element = [] then ''/'' else element)"

section \<open>The generation client\<close>

text \<open>\<^verbatim>\<open>encodeImageToBase64\<close>: a data URI whose MIME type is read off the first bytes.\<close>

definition encodeImageToBase64 :: "world \<Rightarrow> string \<Rightarrow> string" where
  "encodeImageToBase64 w imageData =
     (let mimeType =
            (if length imageData > 2 \<and> imageData ! 0 = CHR 0x89
                \<and> imageData ! 1 = CHR 0x50 \<and> imageData ! 2 = CHR 0x4E
             then ''image/png'' else ''image/jpeg'')
      in ''data:'' @ mimeType @ '';base64,'' @ base64 w imageData)"

definition submitURL :: string where
  "submitURL = ''https://api.dev.runwayml.com/v1/image_to_video''"

text \<open>
  The request body is a map of three strings, which \<^verbatim>\<open>json.Marshal\<close> writes
  with its keys sorted and cannot fail on.
\<close>

definition submitRequest :: "world \<Rightarrow> config \<Rightarrow> string \<Rightarrow> string \<Rightarrow> request" where
  "submitRequest w c imageData description =
     \<lparr>httpMethod = ''POST'', url = submitURL,
      headers = [(''Content-Type'', ''application/json''),
                 (''Authorization'', ''Bearer '' @ RunwayAPIKey c),
                 (''X-Runway-Version'', ''2024-11-06'')],
      payload = Some (encode w (JObject
                 [(''model'', JString ''gen3a_turbo''),
                  (''promptImage'', JString (encodeImageToBase64 w imageData)),
                  (''promptText'', JString description)]))\<rparr>"

definition generateVideoWithRunway ::
  "world \<Rightarrow> config \<Rightarrow> string \<Rightarrow> string \<Rightarrow> trace \<Rightarrow> (error + string) \<times> trace" where
  "generateVideoWithRunway w c imageData description t =
     (if \<not> requestOK w ''POST'' submitURL then (Inl CreateRequestFailed, t)
      else case clientDo w (submitRequest w c imageData description) t of
        (SendFailed, t') \<Rightarrow> (Inl SendRequestFailed, t')
      | (Reply code None, t') \<Rightarrow> (Inl ReadResponseFailed, t')
      | (Reply code (Some body), t') \<Rightarrow>
          if code \<noteq> 200 \<and> code \<noteq> 202 then (Inl (UnexpectedStatus code body), t')
          else (case unmarshalMap w body of
            None \<Rightarrow> (Inl ParseResponseFailed, t')
          | Some responseData \<Rightarrow>
              (case asString (member responseData ''error'') of
                 Some errMsg \<Rightarrow> (Inl (APIError errMsg), t')
               | None \<Rightarrow>
                   (case asString (member responseData ''id'') of
                      Some jobID \<Rightarrow> pollForVideo w c jobID t'
                    | None \<Rightarrow>
                        (case asString (member responseData ''jobId'') of
                           Some jobID \<Rightarrow> pollForVideo w c jobID t'
                         | None \<Rightarrow> (Inl (MissingJobIdentifier responseData), t'))))))"

section \<open>The stage orchestrator\<close>

text \<open>
  \<^verbatim>\<open>uuid.New().String()[:8]\<close>: the first eight bytes of a fresh UUID (a UUID
  is written with 36).
\<close>

definition uuidPrefix :: "world \<Rightarrow> trace \<Rightarrow> string \<times> trace" where
  "uuidPrefix w t = (case uuidNew w t of (u, t') \<Rightarrow> (take 8 u, t'))"

text \<open>
  The path of the output file: \<^verbatim>\<open>video_\<close> or \<^verbatim>\<open>placeholder_\<close>, the base name
  of the image without its extension, the UUID prefix and \<^verbatim>\<open>.mp4\<close>, under the
  output directory.
\<close>

definition videoFilePath :: "world \<Rightarrow> config \<Rightarrow> string \<Rightarrow> Image \<Rightarrow> string \<Rightarrow> string" where
  "videoFilePath w c kind img u =
     (let baseFilename = Base (Path img);
          baseFilename = TrimSuffix baseFilename (Ext baseFilename)
      in pathJoin w (OutputDir c) (kind @ ''_'' @ baseFilename @ ''_'' @ u @ ''.mp4''))"

text \<open>
  The body of the loop of \<^verbatim>\<open>Convert\<close> for one image: \<open>Inl\<close> is a
  \<^verbatim>\<open>continue\<close> after an error was logged, \<open>Inr\<close> is the video appended.
\<close>

definition convertImage ::
  "world \<Rightarrow> config \<Rightarrow> Image \<Rightarrow> trace \<Rightarrow> (error + Video) \<times> trace" where
  "convertImage w c img t =
     (case osReadFile w (Path img) t of
        (None, t1) \<Rightarrow> (Inl ReadImageFailed, t1)
      | (Some imageData, t1) \<Rightarrow>
     (case generateVideoWithRunway w c imageData (Description img) t1 of
        (Inl e, t2) \<Rightarrow> (Inl e, t2)
      | (Inr videoData, t2) \<Rightarrow>
     (case uuidPrefix w t2 of (u, t3) \<Rightarrow>
     (let videoPath = videoFilePath w c ''video'' img u in
     (case osMkdirAll w (pathDir w videoPath) t3 of
        (False, t4) \<Rightarrow> (Inl MkdirFailed, t4)
      | (True, t4) \<Rightarrow>
     (case osWriteFile w videoPath videoData t4 of
        (False, t5) \<Rightarrow> (Inl WriteFailed, t5)
      | (True, t5) \<Rightarrow>
          (Inr \<lparr>VPath = videoPath, ImageID = SceneID img, Length = VideoLength c\<rparr>,
           sleep 2000 t5)))))))"

fun convertLoop ::
  "world \<Rightarrow> config \<Rightarrow> Image list \<Rightarrow> Video list \<Rightarrow> trace \<Rightarrow> Video list \<times> trace" where
  "convertLoop w c [] videos t = (videos, t)"
| "convertLoop w c (img # images) videos t =
     (case convertImage w c img t of
        (Inl e, t') \<Rightarrow> convertLoop w c images videos t'
      | (Inr video, t') \<Rightarrow> convertLoop w c images (videos @ [video]) t')"

definition placeholderText :: string where
  "placeholderText = ''This is a placeholder for a video that would be generated by Runway ML''"

definition createPlaceholderVideo :: "world \<Rightarrow> string \<Rightarrow> trace \<Rightarrow> error option \<times> trace" where
  "createPlaceholderVideo w path t =
     (case osMkdirAll w (pathDir w path) t of
        (False, t1) \<Rightarrow> (Some MkdirFailed, t1)
      | (True, t1) \<Rightarrow>
     (case osCreate w path t1 of
        (False, t2) \<Rightarrow> (Some CreateFailed, t2)
      | (True, t2) \<Rightarrow>
     (case osWriteFile w path placeholderText t2 of
        (False, t3) \<Rightarrow> (Some WriteFailed, t3)
      | (True, t3) \<Rightarrow> (None, t3))))"

text \<open>The body of the loop of \<^verbatim>\<open>createPlaceholderVideos\<close> for one image.\<close>

definition placeholderImage ::
  "world \<Rightarrow> config \<Rightarrow> Image \<Rightarrow> trace \<Rightarrow> (error + Video) \<times> trace" where
  "placeholderImage w c img t =
     (case uuidPrefix w t of (u, t1) \<Rightarrow>
     (let videoPath = videoFilePath w c ''placeholder'' img u in
     (case createPlaceholderVideo w videoPath t1 of
        (Some e, t2) \<Rightarrow> (Inl e, t2)
      | (None, t2) \<Rightarrow>
          (Inr \<lparr>VPath = videoPath, ImageID = SceneID img, Length = VideoLength c\<rparr>,
           sleep 100 t2))))"

fun placeholderLoop ::
  "world \<Rightarrow> config \<Rightarrow> Image list \<Rightarrow> Video list \<Rightarrow> trace \<Rightarrow> Video list \<times> trace" where
  "placeholderLoop w c [] videos t = (videos, t)"
| "placeholderLoop w c (img # images) videos t =
     (case placeholderImage w c img t of
        (Inl e, t') \<Rightarrow> placeholderLoop w c images videos t'
      | (Inr video, t') \<Rightarrow> placeholderLoop w c images (videos @ [video]) t')"

definition createPlaceholderVideos ::
  "world \<Rightarrow> config \<Rightarrow> Image list \<Rightarrow> trace \<Rightarrow> (Video list \<times> error option) \<times> trace" where
  "createPlaceholderVideos w c images t =
     (case placeholderLoop w c images [] t of (videos, t') \<Rightarrow> ((videos, None), t'))"

text \<open>\<^verbatim>\<open>Convert\<close> returns the videos and the error (\<open>None\<close> for nil).\<close>

definition Convert ::
  "world \<Rightarrow> config \<Rightarrow> Image list \<Rightarrow> trace \<Rightarrow> (Video list \<times> error option) \<times> trace" where
  "Convert w c images t =
     (if RunwayAPIKey c = [] then createPlaceholderVideos w c images t
      else case convertLoop w c images [] t of
        (videos, t') \<Rightarrow>
          if length videos = 0 then ((videos, Some NoArtifactsProduced), t')
          else ((videos, None), t'))"

section \<open>Scene identifiers\<close>

text \<open>
  \<^verbatim>\<open>strings.ReplaceAll\<close> for a non-empty \<^verbatim>\<open>old\<close>, the only way the code calls it:
  the occurrences of \<^verbatim>\<open>old\<close> are replaced from left to right, without overlap.
  (With an empty \<^verbatim>\<open>old\<close> Go inserts \<^verbatim>\<open>new\<close> around every UTF-8 sequence;
  that case is not modelled and leaves the string as it is here.)
\<close>

function ReplaceAll :: "string \<Rightarrow> string \<Rightarrow> string \<Rightarrow> string" where
  "ReplaceAll [] old new = []"
| "ReplaceAll (c # cs) old new =
     (if old \<noteq> [] \<and> prefix old (c # cs)
      then new @ ReplaceAll (drop (length old) (c # cs)) old new
      else c # ReplaceAll cs old new)"
  by pat_completeness auto
termination
  by (relation "measure (\<lambda>(s, old, new). length s)") auto

definition generateSceneID :: "string \<Rightarrow> string" where
  "generateSceneID imageName =
     (let name = TrimSuffix imageName (Ext imageName);
          name = ReplaceAll name '' '' ''_'';
          name = ReplaceAll name ''-'' ''_''
      in ''scene_'' @ name)"

text \<open>
  The identifier as the specification words it: the file name without its
  extension, lower-cased, spaces and hyphens replaced by underscores, prefixed
  with \<^verbatim>\<open>scene_\<close>. Lower-casing is that of the ASCII letters.
\<close>

definition lowerASCII :: "char \<Rightarrow> char" where
  "lowerASCII c =
     (if 65 \<le> (of_char c :: nat) \<and> (of_char c :: nat) \<le> 90
      then char_of ((of_char c :: nat) + 32) else c)"

definition underscored :: "char \<Rightarrow> char" where
  "underscored c = (if c = CHR '' '' \<or> c = CHR ''-'' then CHR ''_'' else c)"

definition specSceneID :: "string \<Rightarrow> string" where
  "specSceneID imageName =
     ''scene_'' @ map underscored (map lowerASCII (TrimSuffix imageName (Ext imageName)))"

section \<open>Scenes and their JSON file\<close>

text \<open>
  The struct \<^verbatim>\<open>common.Scene\<close>, its fields in the order of the declaration. The
  field \<^verbatim>\<open>Description\<close> is named \<open>SceneDescription\<close> here, apart from the field
  of \<^verbatim>\<open>Image\<close>.
\<close>

record Scene =
  SceneDescription :: string
  SourceTitle :: string
  ID :: string
  Title :: string
  Mood :: string

subsection \<open>Strings of \<^verbatim>\<open>encoding/json\<close>\<close>






subsection \<open>Writing\<close>





subsection \<open>Reading\<close>












section \<open>Notions used to state the properties\<close>

text \<open>
  The map the poller reads a reply as: that of a response with status code 200
  whose body can be read and decodes to a map.
\<close>

definition decoded :: "world \<Rightarrow> http_outcome \<Rightarrow> (string \<times> json) list option" where
  "decoded w out =
     (case out of
        SendFailed \<Rightarrow> None
      | Reply code None \<Rightarrow> None
      | Reply code (Some body) \<Rightarrow> if code = 200 then unmarshalMap w body else None)"

text \<open>
  A reply that lets the poller go on: a response whose body can be read and
  which either has a status code other than 200, or decodes to a map whose
  \<^verbatim>\<open>status\<close> is not the string \<^verbatim>\<open>completed\<close> nor the string \<^verbatim>\<open>failed\<close>.
\<close>

definition nonTerminal :: "world \<Rightarrow> http_outcome \<Rightarrow> bool" where
  "nonTerminal w out =
     (case out of
        SendFailed \<Rightarrow> False
      | Reply code None \<Rightarrow> False
      | Reply code (Some body) \<Rightarrow>
          code \<noteq> 200 \<or>
          (case unmarshalMap w body of
             None \<Rightarrow> False
           | Some responseData \<Rightarrow>
               asString (member responseData ''status'') \<noteq> Some ''completed'' \<and>
               asString (member responseData ''status'') \<noteq> Some ''failed''))"

text \<open>
  What becomes of each image of a batch when the images are taken one after the
  other, each from the trace the one before has left: the video made of it, or
  the error that made the loop skip it.
\<close>

fun convertOutcomes ::
  "world \<Rightarrow> config \<Rightarrow> Image list \<Rightarrow> trace \<Rightarrow> (error + Video) list" where
  "convertOutcomes w c [] t = []"
| "convertOutcomes w c (img # images) t =
     (case convertImage w c img t of (r, t') \<Rightarrow> r # convertOutcomes w c images t')"


fun successes :: "(error + Video) list \<Rightarrow> Video list" where
  "successes [] = []"
| "successes (Inl e # rs) = successes rs"
| "successes (Inr v # rs) = v # successes rs"




section \<open>Example worlds\<close>

text \<open>
  Worlds for the concrete runs below. The bodies of the replies are written
  without quotation marks; \<open>exampleDocuments\<close> is what the decoder makes of them.
\<close>

definition exampleDocuments :: "(string \<times> json) list" where
  "exampleDocuments =
     [(''{id: job-1}'', JObject [(''id'', JString ''job-1'')]),
      (''{status: queued}'', JObject [(''status'', JString ''queued'')]),
      (''{status: running}'', JObject [(''status'', JString ''running'')]),
      (''{status: completed, videoUrl: https://cdn.example/v.mp4}'',
         JObject [(''status'', JString ''completed''),
                  (''videoUrl'', JString ''https://cdn.example/v.mp4'')]),
      (''{status: completed, output: {video: https://cdn.example/v.mp4}}'',
         JObject [(''status'', JString ''completed''),
                  (''output'', JObject [(''video'', JString ''https://cdn.example/v.mp4'')])]),
      (''{status: completed, output: [https://cdn.example/v.mp4]}'',
         JObject [(''status'', JString ''completed''),
                  (''output'', JArray [JString ''https://cdn.example/v.mp4''])]),
      (''{status: failed, error: quota exceeded}'',
         JObject [(''status'', JString ''failed''), (''error'', JString ''quota exceeded'')]),
      (''{status: failed}'', JObject [(''status'', JString ''failed'')])]"

text \<open>
  The server answers the \<open>k\<close>-th request with the \<open>k\<close>-th reply of a script
  (and not at all after its end); the disk holds the files of \<open>disk\<close> and
  can be written or not.
\<close>

definition scriptedWorld ::
  "http_outcome list \<Rightarrow> (string \<Rightarrow> string option) \<Rightarrow> bool \<Rightarrow> world" where
  "scriptedWorld replies disk writable =
     \<lparr>server = (\<lambda>k r. if k < length replies then replies ! k else SendFailed),
      requestOK = (\<lambda>m u. True),
      decode = map_of exampleDocuments,
      encode = (\<lambda>d. ''{}''),
      encodeIndent = (\<lambda>d. ''[]''),
      base64 = (\<lambda>s. s),
      fileData = (\<lambda>k p. disk p),
      mkdirOK = (\<lambda>k p. writable),
      createOK = (\<lambda>k p. writable),
      writeOK = (\<lambda>k p d. writable),
      uuidString = (\<lambda>k. ''6ba7b810-9dad-11d1-80b4-00c04fd430c8''),
      pathJoin = (\<lambda>a b. a @ ''/'' @ b),
      pathDir = (\<lambda>p. ''output/videos'')\<rparr>"

text \<open>A job that is queued, runs and completes, and the download of its video.\<close>

definition completingReplies :: "http_outcome list" where
  "completingReplies =
     [Reply 200 (Some ''{status: queued}''),
      Reply 200 (Some ''{status: running}''),
      Reply 200 (Some ''{status: running}''),
      Reply 200 (Some ''{status: completed, videoUrl: https://cdn.example/v.mp4}''),
      Reply 200 (Some ''MP4 data'')]"

definition networkWorld :: "http_outcome list \<Rightarrow> world" where
  "networkWorld replies = scriptedWorld replies (\<lambda>p. None) True"

text \<open>A server on which the job never leaves the running state.\<close>

definition stuckWorld :: world where
  "stuckWorld =
     (scriptedWorld [] (\<lambda>p. None) True)
       \<lparr>server := (\<lambda>k r. Reply 200 (Some ''{status: running}''))\<rparr>"

definition exampleConfig :: "string \<Rightarrow> config" where
  "exampleConfig key = \<lparr>RunwayAPIKey = key, OutputDir = ''output/videos'', VideoLength = 10\<rparr>"

definition exampleImage :: "string \<Rightarrow> Image" where
  "exampleImage name =
     \<lparr>Path = ''output/images/'' @ name @ ''.png'', SceneID = name, Description = ''a scene''\<rparr>"

definition exampleDisk :: "string \<Rightarrow> string option" where
  "exampleDisk p = (if p = ''output/images/storm.png'' then Some ''PNG...'' else None)"





section \<open>The job poller: lemmas\<close>

subsection \<open>Counting requests\<close>

lemma nsent_append [simp]: "nsent (t @ u) = nsent t + nsent u"
  by (simp add: nsent_def)

lemma nsent_Sent [simp]: "nsent [Sent r] = 1"
  by (simp add: nsent_def)

lemma nsent_Cons_Sent [simp]: "nsent (Sent r # t) = Suc (nsent t)"
  by (simp add: nsent_def)

lemma nsent_Cons_Slept [simp]: "nsent (Slept n # t) = nsent t"
  by (simp add: nsent_def)

lemma nsent_Nil [simp]: "nsent [] = 0"
  by (simp add: nsent_def)

subsection \<open>One turn of the loop\<close>

lemma decodedD:
  "decoded w out = Some m \<Longrightarrow> \<exists>body. out = Reply 200 (Some body) \<and> unmarshalMap w body = Some m"
  by (auto simp: decoded_def split: http_outcome.splits option.splits if_splits)

lemma pollAttempt_running:
  assumes "requestOK w ''GET'' apiURL"
    and "decoded w (server w (nsent t) (statusRequest c apiURL)) = Some responseData"
    and "asString (member responseData ''status'') = Some status"
    and "status \<noteq> ''completed''" and "status \<noteq> ''failed''"
  shows "pollAttempt w c jobID apiURL attempt t =
           (Retry apiURL, t @ [Sent (statusRequest c apiURL), Slept pollInterval])"
  using assms(1,3-) decodedD [OF assms(2)]
  by (auto simp: pollAttempt_def clientDo_def sleep_def)

lemma pollAttempt_failed:
  assumes "requestOK w ''GET'' apiURL"
    and "decoded w (server w (nsent t) (statusRequest c apiURL)) = Some responseData"
    and "asString (member responseData ''status'') = Some ''failed''"
  shows "pollAttempt w c jobID apiURL attempt t =
           (Return (Inl (GenerationFailed
              (case asString (member responseData ''error'') of
                 Some errMsg \<Rightarrow> errMsg | None \<Rightarrow> ''unknown error''))),
            t @ [Sent (statusRequest c apiURL)])"
  using assms(1,3-) decodedD [OF assms(2)]
  by (auto simp: pollAttempt_def clientDo_def sleep_def)


lemma pollAttempt_retry:
  assumes "requestOK w ''GET'' apiURL"
    and "nonTerminal w (server w (nsent t) (statusRequest c apiURL))"
  shows "\<exists>u. pollAttempt w c jobID apiURL attempt t =
           (Retry u, t @ [Sent (statusRequest c apiURL), Slept pollInterval])
         \<and> (attempt \<noteq> 1 \<longrightarrow> u = apiURL)"
  using assms
  by (auto simp: pollAttempt_def nonTerminal_def clientDo_def sleep_def
           split: http_outcome.splits option.splits)


subsection \<open>Unfolding the loop\<close>

lemma pollLoop_Retry:
  assumes "attempt \<le> maxAttempts"
    and "pollAttempt w c jobID apiURL attempt t = (Retry u, t')"
  shows "pollLoop w c jobID apiURL attempt t = pollLoop w c jobID u (attempt + 1) t'"
  using assms by (subst pollLoop.simps) simp

lemma pollLoop_Return:
  assumes "attempt \<le> maxAttempts"
    and "pollAttempt w c jobID apiURL attempt t = (Return r, t')"
  shows "pollLoop w c jobID apiURL attempt t = (r, t')"
  using assms by (subst pollLoop.simps) simp

lemma pollLoop_exhausted:
  assumes "maxAttempts < attempt"
  shows "pollLoop w c jobID apiURL attempt t = (Inl PollTimeout, t)"
  using assms by (subst pollLoop.simps) simp


subsection \<open>The trace only grows\<close>

lemma downloadVideo_extends: "prefix t (snd (downloadVideo w u t))"
  by (auto simp: downloadVideo_def clientDo_def split: http_outcome.splits option.splits)

lemma downloadVideo_extendsD:
  "downloadVideo w u t = (r, t') \<Longrightarrow> prefix t t'"
  using downloadVideo_extends [of t w u] by simp

lemma pollAttempt_sends:
  assumes "requestOK w ''GET'' apiURL"
  shows "prefix (t @ [Sent (statusRequest c apiURL)]) (snd (pollAttempt w c jobID apiURL attempt t))"
  using assms
  by (auto simp: pollAttempt_def clientDo_def sleep_def
           split: http_outcome.splits option.splits sum.splits prod.splits
           dest: downloadVideo_extendsD)

lemma pollAttempt_extends: "prefix t (snd (pollAttempt w c jobID apiURL attempt t))"
  by (auto simp: pollAttempt_def clientDo_def sleep_def
           split: http_outcome.splits option.splits sum.splits prod.splits
           dest: downloadVideo_extendsD append_prefixD)

lemma pollLoop_extends: "prefix t (snd (pollLoop w c jobID apiURL attempt t))"
proof (induction w c jobID apiURL attempt t rule: pollLoop.induct)
  case (1 w c jobID apiURL attempt t)
  show ?case
  proof (cases "attempt \<le> maxAttempts")
    case False
    then show ?thesis by (subst pollLoop.simps) simp
  next
    case True
    obtain s t' where st: "pollAttempt w c jobID apiURL attempt t = (s, t')"
      by (cases "pollAttempt w c jobID apiURL attempt t")
    have pt: "prefix t t'"
      using pollAttempt_extends [of t w c jobID apiURL attempt] st by simp
    show ?thesis
    proof (cases s)
      case (Retry u)
      with 1 [OF True] st have "prefix t' (snd (pollLoop w c jobID u (attempt + 1) t'))"
        by simp
      moreover have "pollLoop w c jobID apiURL attempt t = pollLoop w c jobID u (attempt + 1) t'"
        using True st Retry by (simp add: pollLoop_Retry)
      ultimately show ?thesis using pt by (metis prefix_order.trans)
    next
      case (Return r)
      then have "pollLoop w c jobID apiURL attempt t = (r, t')"
        using True st by (simp add: pollLoop_Return)
      then show ?thesis using pt by simp
    qed
  qed
qed

lemma pollLoop_sends:
  assumes "attempt \<le> maxAttempts" and "requestOK w ''GET'' apiURL"
  shows "prefix (t @ [Sent (statusRequest c apiURL)]) (snd (pollLoop w c jobID apiURL attempt t))"
proof -
  obtain s t' where st: "pollAttempt w c jobID apiURL attempt t = (s, t')"
    by (cases "pollAttempt w c jobID apiURL attempt t")
  have pt: "prefix (t @ [Sent (statusRequest c apiURL)]) t'"
    using pollAttempt_sends [OF assms(2), of t c jobID attempt] st by simp
  show ?thesis
  proof (cases s)
    case (Retry u)
    then have "pollLoop w c jobID apiURL attempt t = pollLoop w c jobID u (attempt + 1) t'"
      using assms(1) st by (simp add: pollLoop_Retry)
    then show ?thesis
      using pt pollLoop_extends [of t' w c jobID u "attempt + 1"] by (metis prefix_order.trans)
  next
    case (Return r)
    then have "pollLoop w c jobID apiURL attempt t = (r, t')"
      using assms(1) st by (simp add: pollLoop_Return)
    then show ?thesis using pt by simp
  qed
qed

subsection \<open>A job that never ends\<close>

lemma pollLoop_stuck:
  assumes "1 < attempt" and "attempt \<le> Suc maxAttempts"
    and "requestOK w ''GET'' apiURL"
    and "\<forall>k < Suc maxAttempts - attempt. nonTerminal w (server w (nsent t + k) (statusRequest c apiURL))"
  shows "pollLoop w c jobID apiURL attempt t =
           (Inl PollTimeout,
            t @ concat (replicate (Suc maxAttempts - attempt)
                          [Sent (statusRequest c apiURL), Slept pollInterval]))"
  using assms
proof (induction "Suc maxAttempts - attempt" arbitrary: attempt t)
  case 0
  then have "maxAttempts < attempt" by simp
  then show ?case using 0 by (simp add: pollLoop_exhausted)
next
  case (Suc n)
  let ?q = "statusRequest c apiURL"
  let ?t' = "t @ [Sent ?q, Slept pollInterval]"
  have le: "attempt \<le> maxAttempts" using Suc.hyps(2) by simp
  have "nonTerminal w (server w (nsent t) ?q)"
    using Suc.prems(4) Suc.hyps(2) by (metis add.right_neutral zero_less_Suc)
  then have step: "pollAttempt w c jobID apiURL attempt t = (Retry apiURL, ?t')"
    using pollAttempt_retry [OF Suc.prems(3), of t c jobID attempt] Suc.prems(1) by auto
  have n: "n = Suc maxAttempts - (attempt + 1)" using Suc.hyps(2) by simp
  have rest: "\<forall>k < Suc maxAttempts - (attempt + 1).
      nonTerminal w (server w (nsent ?t' + k) ?q)"
  proof (intro allI impI)
    fix k assume "k < Suc maxAttempts - (attempt + 1)"
    then have "Suc k < Suc maxAttempts - attempt" by simp
    then have "nonTerminal w (server w (nsent t + Suc k) ?q)" using Suc.prems(4) by blast
    then show "nonTerminal w (server w (nsent ?t' + k) ?q)" by simp
  qed
  have "pollLoop w c jobID apiURL (attempt + 1) ?t' =
          (Inl PollTimeout,
           ?t' @ concat (replicate (Suc maxAttempts - (attempt + 1)) [Sent ?q, Slept pollInterval]))"
    using Suc.hyps(1) [OF n _ _ Suc.prems(3) rest] Suc.prems(1) le by simp
  moreover have "Suc maxAttempts - attempt = Suc (Suc maxAttempts - (attempt + 1))"
    using le by simp
  ultimately show ?case
    using pollLoop_Retry [OF le step] by simp
qed

subsection \<open>Definitions unfolded in the concrete runs\<close>

lemmas example_defs =
  networkWorld_def scriptedWorld_def stuckWorld_def exampleConfig_def exampleDocuments_def
  completingReplies_def decoded_def unmarshalMap_def member_def nonTerminal_def
  statusRequest_def statusURL_def alternativeURL_def downloadRequest_def videoLocation_def
  maxAttempts_def

section \<open>The job poller: properties\<close>

subsection \<open>Result location of a completed job\<close>

text \<open>
  A completed response is searched for the video URL at \<^verbatim>\<open>videoUrl\<close> first and
  at \<^verbatim>\<open>output.video\<close> second; no other shape is looked at.
\<close>

lemma videoLocation_videoUrl:
  "asString (member responseData ''videoUrl'') = Some u \<Longrightarrow> videoLocation responseData = Inr u"
  by (simp add: videoLocation_def)

lemma videoLocation_output_video:
  assumes "asString (member responseData ''videoUrl'') = None"
    and "asMap (member responseData ''output'') = Some output"
    and "asString (member output ''video'') = Some u"
  shows "videoLocation responseData = Inr u"
  using assms by (simp add: videoLocation_def)

lemma videoLocation_output_array:
  assumes "asString (member responseData ''videoUrl'') = None"
    and "member responseData ''output'' = Some (JArray urls)"
  shows "videoLocation responseData = Inl (MissingResultLocation responseData)"
  using assms by (simp add: videoLocation_def)

text \<open>
  Claim C2. On a completed status the poller is to try the shapes \<^verbatim>\<open>videoUrl\<close>,
  \<^verbatim>\<open>output.video\<close> and \<^verbatim>\<open>output[0]\<close> in this order and to fail with
  MissingResultLocation only when all three are exhausted. The poller of
  \<^verbatim>\<open>converter.go\<close> never looks at \<^verbatim>\<open>output[0]\<close>: on a completed response whose
  \<^verbatim>\<open>output\<close> is the array of one URL (the shape the Node script
  \<^verbatim>\<open>video-converter.js\<close> reads first) it fails with MissingResultLocation after
  its one status query, and downloads nothing.
\<close>

theorem completed_array_output_not_resolved:
  "pollForVideo
       (networkWorld [Reply 200 (Some ''{status: completed, output: [https://cdn.example/v.mp4]}'')])
       (exampleConfig ''key'') ''job-1'' [] =
     (Inl (MissingResultLocation
        [(''status'', JString ''completed''),
         (''output'', JArray [JString ''https://cdn.example/v.mp4''])]),
      [Sent (statusRequest (exampleConfig ''key'') (statusURL ''job-1''))])"
  by code_simp

subsection \<open>The attempt ceiling\<close>

text \<open>
  Claim C3. When none of the next 60 replies of the server is terminal (each is
  a response with a readable body that is not a 200, or a 200 that decodes to a
  map whose status is neither \<^verbatim>\<open>completed\<close> nor \<^verbatim>\<open>failed\<close>), the poller sends
  exactly 60 status queries,
  sleeps the same 5 seconds after each of them, and returns PollTimeout; the
  trace ends there, so nothing is sent afterwards. The first query goes to the
  status URL, the 59 others to one URL (the alternative one after a 404 on the
  first attempt).
\<close>

theorem poll_timeout_after_60_attempts:
  assumes ok: "requestOK w ''GET'' (statusURL jobID)" "requestOK w ''GET'' (alternativeURL jobID)"
    and stuck: "\<forall>k < maxAttempts. \<forall>r. nonTerminal w (server w (nsent t + k) r)"
  shows "\<exists>u. (u = statusURL jobID \<or> u = alternativeURL jobID)
           \<and> pollForVideo w c jobID t =
               (Inl PollTimeout,
                t @ [Sent (statusRequest c (statusURL jobID)), Slept pollInterval]
                  @ concat (replicate 59 [Sent (statusRequest c u), Slept pollInterval]))
           \<and> nsent (snd (pollForVideo w c jobID t)) = nsent t + 60"
proof -
  let ?q = "statusRequest c (statusURL jobID)"
  let ?t' = "t @ [Sent ?q, Slept pollInterval]"
  have "nonTerminal w (server w (nsent t) ?q)"
    using stuck by (metis add.right_neutral maxAttempts_def zero_less_numeral)
  then obtain u where
    step: "pollAttempt w c jobID (statusURL jobID) 1 t = (Retry u, ?t')"
    using pollAttempt_retry [OF ok(1), of t c jobID 1] by blast
  have u: "u = statusURL jobID \<or> u = alternativeURL jobID"
    using step by (auto simp: pollAttempt_def clientDo_def
                        split: if_splits http_outcome.splits option.splits sum.splits prod.splits)
  have oku: "requestOK w ''GET'' u" using u ok by auto
  have rest: "\<forall>k < Suc maxAttempts - 2. nonTerminal w (server w (nsent ?t' + k) (statusRequest c u))"
  proof (intro allI impI)
    fix k assume "k < Suc maxAttempts - 2"
    then have "Suc k < maxAttempts" by simp
    then have "nonTerminal w (server w (nsent t + Suc k) (statusRequest c u))" using stuck by blast
    then show "nonTerminal w (server w (nsent ?t' + k) (statusRequest c u))" by simp
  qed
  have n59: "Suc maxAttempts - 2 = 59" by (simp add: maxAttempts_def)
  have r2: "pollLoop w c jobID u 2 ?t' =
          (Inl PollTimeout,
           ?t' @ concat (replicate (Suc maxAttempts - 2) [Sent (statusRequest c u), Slept pollInterval]))"
    by (rule pollLoop_stuck [OF _ _ oku rest]) (simp_all add: maxAttempts_def)
  have "(1::nat) \<le> maxAttempts" by (simp add: maxAttempts_def)
  from pollLoop_Retry [OF this step]
  have r1: "pollLoop w c jobID (statusURL jobID) 1 t = pollLoop w c jobID u 2 ?t'"
    by (simp only: one_add_one)
  have res: "pollForVideo w c jobID t =
      (Inl PollTimeout, ?t' @ concat (replicate 59 [Sent (statusRequest c u), Slept pollInterval]))"
    unfolding pollForVideo_def r1 r2 n59 ..
  have count: "nsent (concat (replicate n [Sent (statusRequest c u), Slept pollInterval])) = n" for n
    by (induction n) simp_all
  have "nsent (snd (pollForVideo w c jobID t)) = nsent t + 60"
    unfolding res by (simp add: count)
  with res u show ?thesis by auto
qed

theorem poll_timeout_after_60_attempts_witness:
  "fst (pollForVideo stuckWorld (exampleConfig ''key'') ''job-1'' []) = Inl PollTimeout
   \<and> nsent (snd (pollForVideo stuckWorld (exampleConfig ''key'') ''job-1'' [])) = 60"
  using poll_timeout_after_60_attempts
          [where w = stuckWorld and jobID = "''job-1''" and t = "[]" and c = "exampleConfig ''key''"]
  by (auto simp: example_defs)

subsection \<open>Queued, running, running, completed\<close>



subsection \<open>Statuses the poller does not know\<close>

text \<open>
  Claim C5. A 200 reply whose status is a string other than \<^verbatim>\<open>completed\<close> and
  \<^verbatim>\<open>failed\<close> is no error: the attempt ends in a retry with the same URL after
  one sleep of the poll interval, and the loop goes on with the next attempt.
  Below the ceiling the next event is the next status query; at the ceiling
  (attempt 60) the loop ends with PollTimeout.
\<close>

theorem unrecognised_status_keeps_polling:
  assumes "attempt \<le> maxAttempts"
    and "requestOK w ''GET'' apiURL"
    and "decoded w (server w (nsent t) (statusRequest c apiURL)) = Some responseData"
    and "asString (member responseData ''status'') = Some status"
    and "status \<noteq> ''completed''" and "status \<noteq> ''failed''"
  shows "pollAttempt w c jobID apiURL attempt t =
           (Retry apiURL, t @ [Sent (statusRequest c apiURL), Slept pollInterval])
       \<and> pollLoop w c jobID apiURL attempt t =
           pollLoop w c jobID apiURL (attempt + 1)
             (t @ [Sent (statusRequest c apiURL), Slept pollInterval])
       \<and> (attempt < maxAttempts \<longrightarrow>
            prefix (t @ [Sent (statusRequest c apiURL), Slept pollInterval,
                         Sent (statusRequest c apiURL)])
                   (snd (pollLoop w c jobID apiURL attempt t)))
       \<and> (attempt = maxAttempts \<longrightarrow>
            pollLoop w c jobID apiURL attempt t =
              (Inl PollTimeout, t @ [Sent (statusRequest c apiURL), Slept pollInterval]))"
proof -
  let ?q = "statusRequest c apiURL"
  let ?t' = "t @ [Sent ?q, Slept pollInterval]"
  have step: "pollAttempt w c jobID apiURL attempt t = (Retry apiURL, ?t')"
    by (rule pollAttempt_running [OF assms(2-6)])
  have loop: "pollLoop w c jobID apiURL attempt t = pollLoop w c jobID apiURL (attempt + 1) ?t'"
    by (rule pollLoop_Retry [OF assms(1) step])
  have next_query: "prefix (?t' @ [Sent ?q]) (snd (pollLoop w c jobID apiURL attempt t))"
    if "attempt < maxAttempts"
  proof -
    from that have "attempt + 1 \<le> maxAttempts" by simp
    from pollLoop_sends [OF this assms(2), of ?t' c jobID] show ?thesis
      by (simp only: loop)
  qed
  have ceiling: "pollLoop w c jobID apiURL attempt t = (Inl PollTimeout, ?t')"
    if "attempt = maxAttempts"
  proof -
    from that have "maxAttempts < attempt + 1" by simp
    from pollLoop_exhausted [OF this] loop show ?thesis by simp
  qed
  from step loop next_query ceiling show ?thesis by simp
qed

theorem unrecognised_status_keeps_polling_witness:
  "pollAttempt (networkWorld completingReplies) (exampleConfig ''key'') ''job-1''
       (statusURL ''job-1'') 1 [] =
     (Retry (statusURL ''job-1''),
      [Sent (statusRequest (exampleConfig ''key'') (statusURL ''job-1'')), Slept 5000])
   \<and> prefix
       [Sent (statusRequest (exampleConfig ''key'') (statusURL ''job-1'')), Slept 5000,
        Sent (statusRequest (exampleConfig ''key'') (statusURL ''job-1''))]
       (snd (pollLoop (networkWorld completingReplies) (exampleConfig ''key'') ''job-1''
               (statusURL ''job-1'') 1 []))
   \<and> pollLoop stuckWorld (exampleConfig ''key'') ''job-1'' (statusURL ''job-1'') 60 [] =
     (Inl PollTimeout,
      [Sent (statusRequest (exampleConfig ''key'') (statusURL ''job-1'')), Slept 5000])"
proof -
  let ?w = "networkWorld completingReplies"
  let ?c = "exampleConfig ''key''"
  let ?u = "statusURL ''job-1''"
  have first: "(1::nat) \<le> maxAttempts" and last: "(60::nat) \<le> maxAttempts"
    by (simp_all add: maxAttempts_def)
  have ok: "requestOK ?w ''GET'' ?u" "requestOK stuckWorld ''GET'' ?u"
    by (simp_all add: networkWorld_def scriptedWorld_def stuckWorld_def)
  have queued: "decoded ?w (server ?w (nsent []) (statusRequest ?c ?u))
                  = Some [(''status'', JString ''queued'')]"
    by (simp add: example_defs)
  have running: "decoded stuckWorld (server stuckWorld (nsent []) (statusRequest ?c ?u))
                  = Some [(''status'', JString ''running'')]"
    by (simp add: example_defs)
  have sq: "asString (member [(''status'', JString ''queued'')] ''status'') = Some ''queued''"
    and sr: "asString (member [(''status'', JString ''running'')] ''status'') = Some ''running''"
    by (simp_all add: member_def)
  have a: "''queued'' \<noteq> ''completed''" "''queued'' \<noteq> ''failed''"
          "''running'' \<noteq> ''completed''" "''running'' \<noteq> ''failed''"
    by simp_all
  note A = unrecognised_status_keeps_polling [OF first ok(1) queued sq a(1,2), of "''job-1''"]
  note B = unrecognised_status_keeps_polling [OF last ok(2) running sr a(3,4), of "''job-1''"]
  have "pollAttempt ?w ?c ''job-1'' ?u 1 [] =
          (Retry ?u, [Sent (statusRequest ?c ?u), Slept 5000])"
    using A [THEN conjunct1] by (simp add: pollInterval_def)
  moreover have "prefix [Sent (statusRequest ?c ?u), Slept 5000, Sent (statusRequest ?c ?u)]
                   (snd (pollLoop ?w ?c ''job-1'' ?u 1 []))"
    using A [THEN conjunct2, THEN conjunct2, THEN conjunct1]
    by (simp add: pollInterval_def maxAttempts_def)
  moreover have "pollLoop stuckWorld ?c ''job-1'' ?u 60 [] =
          (Inl PollTimeout, [Sent (statusRequest ?c ?u), Slept 5000])"
    using B [THEN conjunct2, THEN conjunct2, THEN conjunct2]
    by (simp add: pollInterval_def maxAttempts_def)
  ultimately show ?thesis by blast
qed

subsection \<open>A failed job\<close>

text \<open>
  Claim C6. On a 200 reply whose status is \<^verbatim>\<open>failed\<close> the poller returns
  GenerationFailed with the string at \<^verbatim>\<open>error\<close> when there is one, and with
  \<^verbatim>\<open>unknown error\<close> when there is none; the status query is the last request of
  the trace, so nothing is downloaded.
\<close>

theorem failed_status_reports_provider_error:
  assumes "attempt \<le> maxAttempts"
    and "requestOK w ''GET'' apiURL"
    and "decoded w (server w (nsent t) (statusRequest c apiURL)) = Some responseData"
    and "asString (member responseData ''status'') = Some ''failed''"
  shows "(\<forall>errMsg. asString (member responseData ''error'') = Some errMsg \<longrightarrow>
            pollLoop w c jobID apiURL attempt t =
              (Inl (GenerationFailed errMsg), t @ [Sent (statusRequest c apiURL)]))
       \<and> (asString (member responseData ''error'') = None \<longrightarrow>
            pollLoop w c jobID apiURL attempt t =
              (Inl (GenerationFailed ''unknown error''), t @ [Sent (statusRequest c apiURL)]))"
proof -
  have "pollLoop w c jobID apiURL attempt t =
          (Inl (GenerationFailed
             (case asString (member responseData ''error'') of
                Some errMsg \<Rightarrow> errMsg | None \<Rightarrow> ''unknown error'')),
           t @ [Sent (statusRequest c apiURL)])"
    by (rule pollLoop_Return [OF assms(1) pollAttempt_failed [OF assms(2-4)]])
  then show ?thesis by simp
qed

theorem failed_status_reports_provider_error_witness:
  "pollForVideo (networkWorld [Reply 200 (Some ''{status: failed, error: quota exceeded}'')])
       (exampleConfig ''key'') ''job-1'' [] =
     (Inl (GenerationFailed ''quota exceeded''),
      [Sent (statusRequest (exampleConfig ''key'') (statusURL ''job-1''))])
   \<and> pollForVideo (networkWorld [Reply 200 (Some ''{status: failed}'')])
       (exampleConfig ''key'') ''job-1'' [] =
     (Inl (GenerationFailed ''unknown error''),
      [Sent (statusRequest (exampleConfig ''key'') (statusURL ''job-1''))])"
proof -
  let ?w1 = "networkWorld [Reply 200 (Some ''{status: failed, error: quota exceeded}'')]"
  let ?w2 = "networkWorld [Reply 200 (Some ''{status: failed}'')]"
  let ?c = "exampleConfig ''key''"
  let ?u = "statusURL ''job-1''"
  let ?m1 = "[(''status'', JString ''failed''), (''error'', JString ''quota exceeded'')]"
  let ?m2 = "[(''status'', JString ''failed'')]"
  have first: "(1::nat) \<le> maxAttempts"
    by (simp add: maxAttempts_def)
  have ok: "requestOK ?w1 ''GET'' ?u" "requestOK ?w2 ''GET'' ?u"
    by (simp_all add: networkWorld_def scriptedWorld_def)
  have d1: "decoded ?w1 (server ?w1 (nsent []) (statusRequest ?c ?u)) = Some ?m1"
    by (simp add: example_defs)
  have d2: "decoded ?w2 (server ?w2 (nsent []) (statusRequest ?c ?u)) = Some ?m2"
    by (simp add: example_defs)
  have s: "asString (member ?m1 ''status'') = Some ''failed''"
          "asString (member ?m2 ''status'') = Some ''failed''"
    by (simp_all add: member_def)
  have e: "asString (member ?m1 ''error'') = Some ''quota exceeded''"
          "asString (member ?m2 ''error'') = None"
    by (simp_all add: member_def)
  note A = failed_status_reports_provider_error [OF first ok(1) d1 s(1), of "''job-1''"]
  note B = failed_status_reports_provider_error [OF first ok(2) d2 s(2), of "''job-1''"]
  from A B e show ?thesis
    by (simp add: pollForVideo_def)
qed

section \<open>The stage orchestrator: lemmas\<close>

lemma sent_append [simp]: "sent (t @ u) = sent t @ sent u"
  by (simp add: sent_def)

lemma sent_Cons [simp]:
  "sent (e # t) = (case e of Sent r \<Rightarrow> r # sent t | _ \<Rightarrow> sent t)"
  by (cases e) (simp_all add: sent_def)

lemma sent_Nil [simp]: "sent [] = []"
  by (simp add: sent_def)

lemma length_successes: "length (successes rs) \<le> length rs"
  by (induction rs rule: successes.induct) simp_all

lemma successes_Nil_iff: "successes rs = [] \<longleftrightarrow> (\<forall>r \<in> set rs. isl r)"
  by (induction rs rule: successes.induct) simp_all

lemma successes_nonempty: "Inr v \<in> set rs \<Longrightarrow> successes rs \<noteq> []"
  by (induction rs rule: successes.induct) auto

lemma length_convertOutcomes: "length (convertOutcomes w c images t) = length images"
  by (induction images arbitrary: t) (simp_all split: prod.splits)

lemma convertLoop_successes:
  "fst (convertLoop w c images videos t) = videos @ successes (convertOutcomes w c images t)"
proof (induction images arbitrary: videos t)
  case Nil
  show ?case by simp
next
  case (Cons img images)
  obtain r t' where step: "convertImage w c img t = (r, t')"
    by (cases "convertImage w c img t")
  show ?case
  proof (cases r)
    case (Inl e)
    with step Cons.IH [of videos t'] show ?thesis by simp
  next
    case (Inr video)
    with step Cons.IH [of "videos @ [video]" t'] show ?thesis by simp
  qed
qed

lemma Convert_with_key:
  assumes "RunwayAPIKey c \<noteq> []"
  shows "fst (Convert w c images t) =
           (successes (convertOutcomes w c images t),
            if successes (convertOutcomes w c images t) = [] then Some NoArtifactsProduced else None)"
proof -
  obtain videos t' where loop: "convertLoop w c images [] t = (videos, t')"
    by (cases "convertLoop w c images [] t")
  then have "videos = successes (convertOutcomes w c images t)"
    using convertLoop_successes [of w c images "[]" t] by simp
  with assms loop show ?thesis
    by (simp add: Convert_def)
qed












section \<open>The stage orchestrator: properties\<close>

subsection \<open>A batch with an API key\<close>

text \<open>
  Claim C1. With an API key, every image of the batch is processed, whatever
  became of the images before it: \<^verbatim>\<open>Convert\<close> returns the videos of the images
  that succeeded, in order. When at least one image succeeds, these are between
  1 and N videos and the error is nil; when every image fails, no video is
  returned and the error is NoArtifactsProduced (\<^verbatim>\<open>no videos created\<close>).
\<close>

theorem convert_batch_partial_failure:
  assumes "RunwayAPIKey c \<noteq> []"
  shows "length (convertOutcomes w c images t) = length images
       \<and> fst (fst (Convert w c images t)) = successes (convertOutcomes w c images t)
       \<and> ((\<exists>video. Inr video \<in> set (convertOutcomes w c images t)) \<longrightarrow>
            1 \<le> length (fst (fst (Convert w c images t)))
            \<and> length (fst (fst (Convert w c images t))) \<le> length images
            \<and> snd (fst (Convert w c images t)) = None)
       \<and> ((\<forall>r \<in> set (convertOutcomes w c images t). isl r) \<longrightarrow>
            fst (Convert w c images t) = ([], Some NoArtifactsProduced))"
proof -
  let ?outcomes = "convertOutcomes w c images t"
  have res: "fst (Convert w c images t) =
               (successes ?outcomes, if successes ?outcomes = [] then Some NoArtifactsProduced else None)"
    by (rule Convert_with_key [OF assms])
  have len: "length ?outcomes = length images"
    by (rule length_convertOutcomes)
  have some: "1 \<le> length (fst (fst (Convert w c images t)))
            \<and> length (fst (fst (Convert w c images t))) \<le> length images
            \<and> snd (fst (Convert w c images t)) = None"
    if "\<exists>video. Inr video \<in> set ?outcomes"
  proof -
    from that have ne: "successes ?outcomes \<noteq> []"
      using successes_nonempty by blast
    then have "1 \<le> length (successes ?outcomes)"
      by (cases "successes ?outcomes") simp_all
    moreover have "length (successes ?outcomes) \<le> length images"
      using length_successes [of ?outcomes] len by simp
    ultimately show ?thesis using res ne by simp
  qed
  have none: "fst (Convert w c images t) = ([], Some NoArtifactsProduced)"
    if "\<forall>r \<in> set ?outcomes. isl r"
    using that res successes_Nil_iff [of ?outcomes] by simp
  from len res some none show ?thesis by simp
qed

theorem convert_batch_partial_failure_witness:
  "1 \<le> length (fst (fst (Convert
        (scriptedWorld (Reply 200 (Some ''{id: job-1}'') # completingReplies) exampleDisk True)
        (exampleConfig ''key'') [exampleImage ''missing'', exampleImage ''storm''] [])))
   \<and> length (fst (fst (Convert
        (scriptedWorld (Reply 200 (Some ''{id: job-1}'') # completingReplies) exampleDisk True)
        (exampleConfig ''key'') [exampleImage ''missing'', exampleImage ''storm''] []))) \<le> 2
   \<and> snd (fst (Convert
        (scriptedWorld (Reply 200 (Some ''{id: job-1}'') # completingReplies) exampleDisk True)
        (exampleConfig ''key'') [exampleImage ''missing'', exampleImage ''storm''] [])) = None
   \<and> fst (Convert (scriptedWorld [] exampleDisk True) (exampleConfig ''key'')
        [exampleImage ''missing'', exampleImage ''storm''] []) = ([], Some NoArtifactsProduced)"
proof -
  let ?w = "scriptedWorld (Reply 200 (Some ''{id: job-1}'') # completingReplies) exampleDisk True"
  let ?offline = "scriptedWorld [] exampleDisk True"
  let ?c = "exampleConfig ''key''"
  let ?images = "[exampleImage ''missing'', exampleImage ''storm'']"
  have key: "RunwayAPIKey ?c \<noteq> []"
    by (simp add: exampleConfig_def)
  have one: "convertOutcomes ?w ?c ?images [] =
      [Inl ReadImageFailed,
       Inr \<lparr>VPath = ''output/videos/video_storm_6ba7b810.mp4'', ImageID = ''storm'',
            Length = 10\<rparr>]"
    by code_simp
  have none: "convertOutcomes ?offline ?c ?images [] = [Inl ReadImageFailed, Inl SendRequestFailed]"
    by code_simp
  note A = convert_batch_partial_failure [OF key, of ?w ?images "[]", unfolded one]
  note B = convert_batch_partial_failure [OF key, of ?offline ?images "[]", unfolded none]
  have "1 \<le> length (fst (fst (Convert ?w ?c ?images [])))
      \<and> length (fst (fst (Convert ?w ?c ?images []))) \<le> length ?images
      \<and> snd (fst (Convert ?w ?c ?images [])) = None"
    using A [THEN conjunct2, THEN conjunct2, THEN conjunct1] by simp
  moreover have "fst (Convert ?offline ?c ?images []) = ([], Some NoArtifactsProduced)"
    using B [THEN conjunct2, THEN conjunct2, THEN conjunct2] by simp
  ultimately show ?thesis by simp
qed

subsection \<open>A batch without an API key\<close>




subsection \<open>The empty-output check\<close>

text \<open>
  Claim C10. Without an API key \<^verbatim>\<open>Convert\<close> never returns an error, and on the
  empty batch it returns no video, no error and does nothing. With an API key,
  an empty result comes with the error NoArtifactsProduced; so does the empty
  batch.
\<close>

theorem no_key_never_fails:
  "(RunwayAPIKey c = [] \<longrightarrow> snd (fst (Convert w c images t)) = None)
   \<and> (RunwayAPIKey c = [] \<longrightarrow> Convert w c [] t = (([], None), t))
   \<and> (RunwayAPIKey c \<noteq> [] \<longrightarrow> fst (fst (Convert w c images t)) = [] \<longrightarrow>
        snd (fst (Convert w c images t)) = Some NoArtifactsProduced)
   \<and> (RunwayAPIKey c \<noteq> [] \<longrightarrow> Convert w c [] t = (([], Some NoArtifactsProduced), t))"
proof (intro conjI impI)
  assume "RunwayAPIKey c = []"
  then show "snd (fst (Convert w c images t)) = None"
    by (simp add: Convert_def createPlaceholderVideos_def split: prod.splits)
next
  assume "RunwayAPIKey c = []"
  then show "Convert w c [] t = (([], None), t)"
    by (simp add: Convert_def createPlaceholderVideos_def)
next
  assume "RunwayAPIKey c \<noteq> []" and "fst (fst (Convert w c images t)) = []"
  then show "snd (fst (Convert w c images t)) = Some NoArtifactsProduced"
    by (simp add: Convert_def split: prod.splits if_splits)
next
  assume "RunwayAPIKey c \<noteq> []"
  then show "Convert w c [] t = (([], Some NoArtifactsProduced), t)"
    by (simp add: Convert_def)
qed

theorem no_key_never_fails_witness:
  "Convert (scriptedWorld [] exampleDisk True) (exampleConfig []) [] [] = (([], None), [])
   \<and> snd (fst (Convert (scriptedWorld [] exampleDisk False) (exampleConfig [])
             [exampleImage ''storm''] [])) = None
   \<and> Convert (scriptedWorld [] exampleDisk True) (exampleConfig ''key'') [] []
       = (([], Some NoArtifactsProduced), [])
   \<and> snd (fst (Convert (scriptedWorld [] exampleDisk True) (exampleConfig ''key'')
             [exampleImage ''missing''] [])) = Some NoArtifactsProduced"
proof -
  let ?w = "scriptedWorld [] exampleDisk True"
  let ?broken = "scriptedWorld [] exampleDisk False"
  have absent: "RunwayAPIKey (exampleConfig []) = []"
    and present: "RunwayAPIKey (exampleConfig ''key'') \<noteq> []"
    by (simp_all add: exampleConfig_def)
  have empty: "fst (fst (Convert ?w (exampleConfig ''key'') [exampleImage ''missing''] [])) = []"
    by code_simp
  note A = no_key_never_fails [of "exampleConfig []" ?broken "[exampleImage ''storm'']" "[]"]
  note B = no_key_never_fails [of "exampleConfig []" ?w "[]" "[]"]
  note C = no_key_never_fails [of "exampleConfig ''key''" ?w "[exampleImage ''missing'']" "[]"]
  have "Convert ?w (exampleConfig []) [] [] = (([], None), [])"
    using B [THEN conjunct2, THEN conjunct1] absent by simp
  moreover have "snd (fst (Convert ?broken (exampleConfig []) [exampleImage ''storm''] [])) = None"
    using A [THEN conjunct1] absent by simp
  moreover have "Convert ?w (exampleConfig ''key'') [] [] = (([], Some NoArtifactsProduced), [])"
    using C [THEN conjunct2, THEN conjunct2, THEN conjunct2] present by simp
  moreover have "snd (fst (Convert ?w (exampleConfig ''key'') [exampleImage ''missing''] []))
                   = Some NoArtifactsProduced"
    using C [THEN conjunct2, THEN conjunct2, THEN conjunct1] present empty by simp
  ultimately show ?thesis by blast
qed

section \<open>Scene identifiers: properties\<close>

lemma ReplaceAll_byte:
  "ReplaceAll s [a] [b] = map (\<lambda>c. if c = a then b else c) s"
  by (induction s) auto

text \<open>
  Claim C7, as stated: the identifier is the file name without its extension,
  lower-cased, spaces and hyphens replaced by underscores, prefixed with
  \<^verbatim>\<open>scene_\<close>. \<^verbatim>\<open>generateSceneID\<close> does not lower-case: upper-case letters of the
  file name stay in the identifier.
\<close>

theorem scene_id_keeps_upper_case:
  "generateSceneID ''BBC News-1.PNG'' = ''scene_BBC_News_1''
   \<and> specSceneID ''BBC News-1.PNG'' = ''scene_bbc_news_1''
   \<and> generateSceneID ''BBC News-1.PNG'' \<noteq> specSceneID ''BBC News-1.PNG''"
  by code_simp

text \<open>
  Claim C7, amended. The identifier is \<^verbatim>\<open>scene_\<close> followed by the file name
  without its extension, in which every space and every hyphen is replaced by
  an underscore and every other byte, letters of either case included, is
  kept. Being a function of the file name, it is the same for equal names.
\<close>

theorem scene_id_without_lower_casing:
  "generateSceneID imageName =
     ''scene_'' @ map underscored (TrimSuffix imageName (Ext imageName))"
proof -
  let ?name = "TrimSuffix imageName (Ext imageName)"
  have "ReplaceAll (ReplaceAll ?name '' '' ''_'') ''-'' ''_'' = map underscored ?name"
    by (simp add: ReplaceAll_byte underscored_def)
  then show ?thesis
    by (simp add: generateSceneID_def)
qed

section \<open>Scenes and their JSON file: properties\<close>












end
